theory Spec2Isabelle
  imports Main "HOL-Library.Word"
begin

section \<open>The encoder selector of \<^verbatim>\<open>draco/compression/expert_encode.cc\<close>\<close>

text \<open>
  The file under verification is the strategy selector \<^verbatim>\<open>ExpertEncoder\<close>: it reads the
  options, inspects the bound geometry, constructs one of four concrete encoders and
  forwards the call. The integers involved (\<^verbatim>\<open>int\<close>, \<^verbatim>\<open>int32_t\<close>) are only compared,
  never added or multiplied, so they are embedded as \<^typ>\<open>int\<close>: no wrap-around can occur.
\<close>

subsection \<open>Status\<close>

text \<open>
  \<^verbatim>\<open>Status(Status::ERROR, "...")\<close>: a code and a message. The two statuses the selector
  builds itself are named after the error kinds of the specification.
\<close>

datatype StatusCode = OK | ERROR

datatype Status = Status StatusCode string

definition InvalidInput :: Status where
  "InvalidInput = Status ERROR ''Invalid input geometry.''"

definition InvalidEncodingMethod :: Status where
  "InvalidEncodingMethod = Status ERROR ''Invalid encoding method.''"

subsection \<open>Geometry\<close>

text \<open>
  Modelled from the spec: the enumerations \<^verbatim>\<open>GeometryAttribute::Type\<close> and \<^verbatim>\<open>DataType\<close>
  are declared in headers that are not part of the source. Only the members the
  selector compares with are named; every other member is an \<open>Other\<close> value.
\<close>

datatype AttributeType = POSITION | OtherAttributeType nat

datatype DataType = DT_FLOAT32 | DT_UINT32 | OtherDataType nat

record PointAttribute =
  attribute_type :: AttributeType
  num_components :: int
  data_type :: DataType

record PointCloud =
  attributes :: "PointAttribute list"

text \<open>A mesh is a point cloud with faces (\<^verbatim>\<open>class Mesh : public PointCloud\<close>).\<close>

record Mesh = PointCloud +
  faces :: "(nat \<times> nat \<times> nat) list"

definition num_attributes :: "PointCloud \<Rightarrow> int" where
  "num_attributes pc = int (length (attributes pc))"

text \<open>
  \<^verbatim>\<open>pc.attribute(i)\<close> indexes the attribute vector without a check. An index outside the
  vector is undefined behaviour in the source; the embedding returns \<open>None\<close> there, and
  the caller turns that into the absence of a result.
\<close>

definition attribute :: "PointCloud \<Rightarrow> int \<Rightarrow> PointAttribute option" where
  "attribute pc i =
     (if 0 \<le> i \<and> i < num_attributes pc then Some (attributes pc ! nat i) else None)"

subsection \<open>Options\<close>

text \<open>
  Modelled from the spec: the option store \<^verbatim>\<open>EncoderOptions\<close> is not part of the source.
  The specification describes it as a key/value bag scoped two ways, global and per
  attribute identifier, whose reads take a caller-supplied default that is returned
  when the key is absent, together with the configured speed read by \<^verbatim>\<open>GetSpeed()\<close>.
\<close>

record EncoderOptions =
  global_options :: "string \<rightharpoonup> int"
  attribute_options :: "int \<Rightarrow> (string \<rightharpoonup> int)"
  speed :: int

definition GetGlobalInt :: "EncoderOptions \<Rightarrow> string \<Rightarrow> int \<Rightarrow> int" where
  "GetGlobalInt opts name default_val =
     (case global_options opts name of None \<Rightarrow> default_val | Some v \<Rightarrow> v)"

definition GetAttributeInt :: "EncoderOptions \<Rightarrow> int \<Rightarrow> string \<Rightarrow> int \<Rightarrow> int" where
  "GetAttributeInt opts att_key name default_val =
     (case attribute_options opts att_key name of None \<Rightarrow> default_val | Some v \<Rightarrow> v)"

definition SetAttributeInt :: "EncoderOptions \<Rightarrow> int \<Rightarrow> string \<Rightarrow> int \<Rightarrow> EncoderOptions" where
  "SetAttributeInt opts att_key name val =
     opts\<lparr>attribute_options := (attribute_options opts)(att_key := (attribute_options opts att_key)(name \<mapsto> val))\<rparr>"

definition GetSpeed :: "EncoderOptions \<Rightarrow> int" where
  "GetSpeed opts = speed opts"

subsection \<open>Method identifiers and concrete encoders\<close>

text \<open>
  The four identifiers are enumerators of a header that is not part of the source and
  the specification gives them no values, so they are a parameter of the selector.
\<close>

record MethodIds =
  POINT_CLOUD_SEQUENTIAL_ENCODING :: int
  POINT_CLOUD_KD_TREE_ENCODING :: int
  MESH_SEQUENTIAL_ENCODING :: int
  MESH_EDGEBREAKER_ENCODING :: int

datatype PointCloudEncoder = PointCloudKdTreeEncoder | PointCloudSequentialEncoder

datatype MeshEncoder = MeshEdgeBreakerEncoder | MeshSequentialEncoder

type_synonym EncoderBuffer = "8 word list"

text \<open>
  The concrete encoders are external collaborators: \<^verbatim>\<open>SetPointCloud\<close>/\<^verbatim>\<open>SetMesh\<close> followed
  by \<^verbatim>\<open>Encode(options, out_buffer)\<close>. They are parameters of the selector: a function
  from the chosen encoder, the geometry, the options and the buffer to the returned
  status and the buffer as the encoder left it.
\<close>

type_synonym PointCloudEncode =
  "PointCloudEncoder \<Rightarrow> PointCloud \<Rightarrow> EncoderOptions \<Rightarrow> EncoderBuffer \<Rightarrow> Status \<times> EncoderBuffer"

type_synonym MeshEncode =
  "MeshEncoder \<Rightarrow> Mesh \<Rightarrow> EncoderOptions \<Rightarrow> EncoderBuffer \<Rightarrow> Status \<times> EncoderBuffer"

subsection \<open>Point-cloud selection\<close>

text \<open>
  Lines 46 to 61 of the source: the flag \<^verbatim>\<open>create_kd_tree_encoder\<close> starts true and is
  cleared by three tests on the attribute, in this order.
\<close>

definition create_kd_tree_encoder :: "EncoderOptions \<Rightarrow> PointAttribute \<Rightarrow> bool" where
  "create_kd_tree_encoder opts att =
     (let c0 = True;
          c1 = (if attribute_type att \<noteq> POSITION \<or> num_components att \<noteq> 3 then False else c0);
          c2 = (if c1 \<and> data_type att \<noteq> DT_FLOAT32 \<and> data_type att \<noteq> DT_UINT32
                then False else c1);
          c3 = (if c2 \<and> data_type att = DT_FLOAT32 \<and>
                   GetAttributeInt opts 0 ''quantization_bits'' (- 1) \<le> 0
                then False else c2)
      in c3)"

text \<open>
  Lines 41 to 76: the computation of the local \<^verbatim>\<open>encoder\<close>. The result is \<open>None\<close> when the
  source dereferences \<^verbatim>\<open>pc.attribute(0)\<close> on a point cloud without attributes,
  \<open>Some (Inl st)\<close> when the function returns the status \<open>st\<close> before an encoder exists,
  and \<open>Some (Inr e)\<close> when the encoder \<open>e\<close> has been constructed.
\<close>

definition SelectPointCloudEncoder ::
  "MethodIds \<Rightarrow> PointCloud \<Rightarrow> EncoderOptions \<Rightarrow> (Status + PointCloudEncoder) option" where
  "SelectPointCloudEncoder ids pc opts =
     (let encoding_method = GetGlobalInt opts ''encoding_method'' (- 1) in
      if encoding_method = POINT_CLOUD_KD_TREE_ENCODING ids \<or>
         (GetSpeed opts < 10 \<and> num_attributes pc = 1)
      then (case attribute pc 0 of
              None \<Rightarrow> None
            | Some att \<Rightarrow>
                if create_kd_tree_encoder opts att then Some (Inr PointCloudKdTreeEncoder)
                else if encoding_method = POINT_CLOUD_KD_TREE_ENCODING ids
                then Some (Inl InvalidEncodingMethod)
                else Some (Inr PointCloudSequentialEncoder))
      else Some (Inr PointCloudSequentialEncoder))"

text \<open>
  The whole of \<^verbatim>\<open>EncodePointCloudToBuffer\<close>: an early return leaves the buffer as it was,
  otherwise lines 77 and 78 hand the point cloud, the options and the buffer to the
  encoder and return what it returns.
\<close>

definition EncodePointCloudToBuffer ::
  "MethodIds \<Rightarrow> PointCloudEncode \<Rightarrow> PointCloud \<Rightarrow> EncoderOptions \<Rightarrow> EncoderBuffer
     \<Rightarrow> (Status \<times> EncoderBuffer) option" where
  "EncodePointCloudToBuffer ids Encode pc opts out_buffer =
     (case SelectPointCloudEncoder ids pc opts of
        None \<Rightarrow> None
      | Some (Inl st) \<Rightarrow> Some (st, out_buffer)
      | Some (Inr encoder) \<Rightarrow> Some (Encode encoder pc opts out_buffer))"

subsection \<open>Mesh selection\<close>

text \<open>Lines 83 to 98: the method is read, inferred from the speed when it is -1, and
  compared with the edge-breaker identifier only.\<close>

definition SelectMeshEncoder :: "MethodIds \<Rightarrow> EncoderOptions \<Rightarrow> MeshEncoder" where
  "SelectMeshEncoder ids opts =
     (let encoding_method0 = GetGlobalInt opts ''encoding_method'' (- 1);
          encoding_method =
            (if encoding_method0 = - 1
             then (if GetSpeed opts = 10 then MESH_SEQUENTIAL_ENCODING ids
                   else MESH_EDGEBREAKER_ENCODING ids)
             else encoding_method0)
      in if encoding_method = MESH_EDGEBREAKER_ENCODING ids then MeshEdgeBreakerEncoder
         else MeshSequentialEncoder)"

definition EncodeMeshToBuffer ::
  "MethodIds \<Rightarrow> MeshEncode \<Rightarrow> Mesh \<Rightarrow> EncoderOptions \<Rightarrow> EncoderBuffer
     \<Rightarrow> (Status \<times> EncoderBuffer) option" where
  "EncodeMeshToBuffer ids Encode m opts out_buffer =
     Some (Encode (SelectMeshEncoder ids opts) m opts out_buffer)"

subsection \<open>The selector object\<close>

text \<open>
  The two pointers of the class, \<^verbatim>\<open>point_cloud_\<close> and \<^verbatim>\<open>mesh_\<close>, are optional values
  (\<open>None\<close> is \<^verbatim>\<open>nullptr\<close>; a name cannot end in an underscore here, hence the suffix);
  \<open>options\<close> is the option store the base class holds.
\<close>

record ExpertEncoder =
  point_cloud_ptr :: "PointCloud option"
  mesh_ptr :: "Mesh option"
  options :: EncoderOptions

text \<open>
  The constructors, lines 24 to 28. The option store is initialised by the base class,
  which is not part of the source: its initial value is the argument \<open>base\<close>. The mesh
  constructor stores the same object under both pointers; the point-cloud view of a
  mesh is the mesh without its faces.
\<close>

definition ExpertEncoder_of_PointCloud :: "EncoderOptions \<Rightarrow> PointCloud \<Rightarrow> ExpertEncoder" where
  "ExpertEncoder_of_PointCloud base point_cloud =
     \<lparr>point_cloud_ptr = Some point_cloud, mesh_ptr = None, options = base\<rparr>"

definition ExpertEncoder_of_Mesh :: "EncoderOptions \<Rightarrow> Mesh \<Rightarrow> ExpertEncoder" where
  "ExpertEncoder_of_Mesh base mesh =
     \<lparr>point_cloud_ptr = Some (PointCloud.truncate mesh), mesh_ptr = Some mesh, options = base\<rparr>"

definition EncodeToBuffer ::
  "MethodIds \<Rightarrow> PointCloudEncode \<Rightarrow> MeshEncode \<Rightarrow> ExpertEncoder \<Rightarrow> EncoderBuffer
     \<Rightarrow> (Status \<times> EncoderBuffer) option" where
  "EncodeToBuffer ids EncodePC EncodeM this out_buffer =
     (case point_cloud_ptr this of
        None \<Rightarrow> Some (InvalidInput, out_buffer)
      | Some pc \<Rightarrow>
          (case mesh_ptr this of
             None \<Rightarrow> EncodePointCloudToBuffer ids EncodePC pc (options this) out_buffer
           | Some m \<Rightarrow> EncodeMeshToBuffer ids EncodeM m (options this) out_buffer))"

text \<open>Lines 113 to 117.\<close>

definition SetAttributeQuantization :: "ExpertEncoder \<Rightarrow> int \<Rightarrow> int \<Rightarrow> ExpertEncoder" where
  "SetAttributeQuantization this attribute_id quantization_bits =
     this\<lparr>options := SetAttributeInt (options this) attribute_id ''quantization_bits''
                        quantization_bits\<rparr>"

subsection \<open>Concrete inputs\<close>

text \<open>
  Inputs at which the selector is evaluated below. The enumerators are numbered from
  zero in the order the specification lists them (sequential, then the specialised
  method). The two recording encoders stand for the collaborators: each returns
  \<^verbatim>\<open>OK\<close> and appends one byte that names the encoder that ran, so a written buffer
  shows which encoder was driven.
\<close>

definition ids01 :: MethodIds where
  "ids01 = \<lparr>POINT_CLOUD_SEQUENTIAL_ENCODING = 0, POINT_CLOUD_KD_TREE_ENCODING = 1,
            MESH_SEQUENTIAL_ENCODING = 0, MESH_EDGEBREAKER_ENCODING = 1\<rparr>"

definition recording_pc_encode :: PointCloudEncode where
  "recording_pc_encode e pc opts buf =
     (Status OK [], buf @ [case e of PointCloudSequentialEncoder \<Rightarrow> 0 | PointCloudKdTreeEncoder \<Rightarrow> 1])"

definition recording_mesh_encode :: MeshEncode where
  "recording_mesh_encode e m opts buf =
     (Status OK [], buf @ [case e of MeshSequentialEncoder \<Rightarrow> 2 | MeshEdgeBreakerEncoder \<Rightarrow> 3])"

definition position_uint32 :: PointAttribute where
  "position_uint32 = \<lparr>attribute_type = POSITION, num_components = 3, data_type = DT_UINT32\<rparr>"

definition position_float32 :: PointAttribute where
  "position_float32 = \<lparr>attribute_type = POSITION, num_components = 3, data_type = DT_FLOAT32\<rparr>"

definition other_attribute :: PointAttribute where
  "other_attribute =
     \<lparr>attribute_type = OtherAttributeType 0, num_components = 3, data_type = OtherDataType 0\<rparr>"

section \<open>Properties\<close>

subsection \<open>Auxiliary facts\<close>

lemma create_kd_tree_encoder_iff:
  "create_kd_tree_encoder opts att \<longleftrightarrow>
     attribute_type att = POSITION \<and> num_components att = 3 \<and>
     (data_type att = DT_UINT32 \<or>
      data_type att = DT_FLOAT32 \<and> 0 < GetAttributeInt opts 0 ''quantization_bits'' (- 1))"
  by (auto simp: create_kd_tree_encoder_def Let_def)

lemma attribute_0_single: "attributes pc = [att] \<Longrightarrow> attribute pc 0 = Some att"
  by (simp add: attribute_def num_attributes_def)

text \<open>On the option store as modelled, the read of line 60 is positive exactly when a
  positive value is stored under \<^verbatim>\<open>"quantization_bits"\<close> of attribute 0.\<close>

lemma positive_quantization_bits_iff:
  "0 < GetAttributeInt opts 0 ''quantization_bits'' (- 1) \<longleftrightarrow>
     (\<exists>q. attribute_options opts 0 ''quantization_bits'' = Some q \<and> 0 < q)"
  by (simp add: GetAttributeInt_def split: option.splits)

lemma statuses_differ: "InvalidEncodingMethod \<noteq> InvalidInput"
  by (simp add: InvalidInput_def InvalidEncodingMethod_def)

lemmas fixture_defs =
  ids01_def recording_pc_encode_def recording_mesh_encode_def
  position_uint32_def position_float32_def other_attribute_def

lemmas reader_defs = GetGlobalInt_def GetAttributeInt_def GetSpeed_def

subsection \<open>Mesh selection\<close>

text \<open>
  Claim C1, as the code has it. The specification asks that a mesh method outside the
  two known identifiers be rejected with \<open>InvalidEncodingMethod\<close>. The source compares the
  method with the edge-breaker identifier only and takes the sequential encoder in
  every other case. What holds instead: for a selector bound to a mesh, when
  \<^verbatim>\<open>"encoding_method"\<close> is explicitly set to a value that is neither the sequential nor the
  edge-breaker identifier, and is not the value -1 that reads as unset, the sequential
  mesh encoder is selected and \<open>EncodeToBuffer\<close> returns exactly what that encoder
  returns.
\<close>

theorem mesh_explicit_other_method_sequential:
  assumes "point_cloud_ptr this = Some pc" and "mesh_ptr this = Some m"
    and "global_options (options this) ''encoding_method'' = Some v"
    and "v \<noteq> MESH_SEQUENTIAL_ENCODING ids" and "v \<noteq> MESH_EDGEBREAKER_ENCODING ids"
    and "v \<noteq> - 1"
  shows "SelectMeshEncoder ids (options this) = MeshSequentialEncoder \<and>
         EncodeToBuffer ids EncodePC EncodeM this buf =
           Some (EncodeM MeshSequentialEncoder m (options this) buf)"
  using assms
  by (simp add: EncodeToBuffer_def EncodeMeshToBuffer_def SelectMeshEncoder_def GetGlobalInt_def)

text \<open>The same at a mesh with one triangle, method 7 and speed 5: the byte 2 of the
  sequential mesh encoder is written.\<close>

theorem mesh_explicit_other_method_sequential_witness:
  "EncodeToBuffer ids01 recording_pc_encode recording_mesh_encode
     (ExpertEncoder_of_Mesh
        \<lparr>global_options = [''encoding_method'' \<mapsto> 7], attribute_options = \<lambda>_. Map.empty, speed = 5\<rparr>
        \<lparr>attributes = [position_uint32], faces = [(0, 0, 0)]\<rparr>) []
   = Some (Status OK [], [2])"
  using mesh_explicit_other_method_sequential
    [where ids = ids01 and v = 7 and EncodePC = recording_pc_encode
       and EncodeM = recording_mesh_encode and buf = "[]"
       and this = "ExpertEncoder_of_Mesh
        \<lparr>global_options = [''encoding_method'' \<mapsto> 7], attribute_options = \<lambda>_. Map.empty, speed = 5\<rparr>
        \<lparr>attributes = [position_uint32], faces = [(0, 0, 0)]\<rparr>"
       and m = "\<lparr>attributes = [position_uint32], faces = [(0, 0, 0)]\<rparr>"
       and pc = "\<lparr>attributes = [position_uint32]\<rparr>"]
  by (simp add: ExpertEncoder_of_Mesh_def ids01_def recording_mesh_encode_def PointCloud.truncate_def)

text \<open>
  Claim C1 as the specification states it fails: with the identifiers 0 and 1 and the
  method 7, the call succeeds with the status of the sequential mesh encoder and a
  written buffer, where the claim expects \<open>InvalidEncodingMethod\<close> and no delegation.
\<close>

theorem mesh_unrecognized_method_counterexample:
  "EncodeToBuffer ids01 recording_pc_encode recording_mesh_encode
     (ExpertEncoder_of_Mesh
        \<lparr>global_options = [''encoding_method'' \<mapsto> 7], attribute_options = \<lambda>_. Map.empty, speed = 5\<rparr>
        \<lparr>attributes = [position_uint32], faces = [(0, 0, 0)]\<rparr>) []
   = Some (Status OK [], [2]) \<and>
   EncodeToBuffer ids01 recording_pc_encode recording_mesh_encode
     (ExpertEncoder_of_Mesh
        \<lparr>global_options = [''encoding_method'' \<mapsto> 7], attribute_options = \<lambda>_. Map.empty, speed = 5\<rparr>
        \<lparr>attributes = [position_uint32], faces = [(0, 0, 0)]\<rparr>) []
   \<noteq> Some (InvalidEncodingMethod, [])"
  by (simp add: EncodeToBuffer_def ExpertEncoder_of_Mesh_def EncodeMeshToBuffer_def
      SelectMeshEncoder_def reader_defs fixture_defs InvalidEncodingMethod_def)

text \<open>
  Claim C7. For a mesh with no explicit \<^verbatim>\<open>"encoding_method"\<close> (the read yields the sentinel
  -1), the encoder follows from the speed alone: speed 10 selects the sequential mesh
  encoder and any other speed the edge-breaker encoder, and the call returns what the
  selected encoder returns. The two mesh identifiers are distinct enumerators.
\<close>

theorem mesh_method_inferred_from_speed:
  assumes "GetGlobalInt opts ''encoding_method'' (- 1) = - 1"
    and "MESH_SEQUENTIAL_ENCODING ids \<noteq> MESH_EDGEBREAKER_ENCODING ids"
  shows "(GetSpeed opts = 10 \<longrightarrow>
            SelectMeshEncoder ids opts = MeshSequentialEncoder \<and>
            EncodeMeshToBuffer ids EncodeM m opts buf = Some (EncodeM MeshSequentialEncoder m opts buf)) \<and>
         (GetSpeed opts \<noteq> 10 \<longrightarrow>
            SelectMeshEncoder ids opts = MeshEdgeBreakerEncoder \<and>
            EncodeMeshToBuffer ids EncodeM m opts buf = Some (EncodeM MeshEdgeBreakerEncoder m opts buf))"
  using assms by (simp add: EncodeMeshToBuffer_def SelectMeshEncoder_def)

text \<open>At speed 10 the byte 2 (sequential) is written, at speed 9 the byte 3 (edge-breaker).\<close>

theorem mesh_method_inferred_from_speed_witness:
  "EncodeMeshToBuffer ids01 recording_mesh_encode \<lparr>attributes = [position_uint32], faces = [(0, 0, 0)]\<rparr>
     \<lparr>global_options = Map.empty, attribute_options = \<lambda>_. Map.empty, speed = 10\<rparr> []
     = Some (Status OK [], [2]) \<and>
   EncodeMeshToBuffer ids01 recording_mesh_encode \<lparr>attributes = [position_uint32], faces = [(0, 0, 0)]\<rparr>
     \<lparr>global_options = Map.empty, attribute_options = \<lambda>_. Map.empty, speed = 9\<rparr> []
     = Some (Status OK [], [3])"
  using mesh_method_inferred_from_speed
    [where ids = ids01 and EncodeM = recording_mesh_encode and buf = "[]"
       and m = "\<lparr>attributes = [position_uint32], faces = [(0, 0, 0)]\<rparr>"
       and opts = "\<lparr>global_options = Map.empty, attribute_options = \<lambda>_. Map.empty, speed = 10\<rparr>"]
    mesh_method_inferred_from_speed
    [where ids = ids01 and EncodeM = recording_mesh_encode and buf = "[]"
       and m = "\<lparr>attributes = [position_uint32], faces = [(0, 0, 0)]\<rparr>"
       and opts = "\<lparr>global_options = Map.empty, attribute_options = \<lambda>_. Map.empty, speed = 9\<rparr>"]
  by (simp add: reader_defs ids01_def recording_mesh_encode_def)

subsection \<open>Point-cloud selection\<close>

text \<open>
  Claim C2, evaluated at the input where the code departs from it. The point cloud has
  two attributes, the first a three-component \<^verbatim>\<open>uint32\<close> position, and the k-d-tree
  method (identifier 1) is requested explicitly at speed 10. The claim expects
  \<open>InvalidEncodingMethod\<close> and an untouched buffer; the source tests attribute 0 only,
  never the number of attributes, so the k-d-tree encoder is constructed and driven
  (its byte 1 is written).
\<close>

theorem kd_tree_explicit_two_attributes:
  "SelectPointCloudEncoder ids01 \<lparr>attributes = [position_uint32, other_attribute]\<rparr>
     \<lparr>global_options = [''encoding_method'' \<mapsto> 1], attribute_options = \<lambda>_. Map.empty, speed = 10\<rparr>
   = Some (Inr PointCloudKdTreeEncoder) \<and>
   EncodeToBuffer ids01 recording_pc_encode recording_mesh_encode
     (ExpertEncoder_of_PointCloud
        \<lparr>global_options = [''encoding_method'' \<mapsto> 1], attribute_options = \<lambda>_. Map.empty, speed = 10\<rparr>
        \<lparr>attributes = [position_uint32, other_attribute]\<rparr>) []
   = Some (Status OK [], [1])"
  by (simp add: EncodeToBuffer_def ExpertEncoder_of_PointCloud_def EncodePointCloudToBuffer_def
      SelectPointCloudEncoder_def create_kd_tree_encoder_iff attribute_def num_attributes_def
      reader_defs fixture_defs)

text \<open>
  Claim C3, as the code has it. The specification says an unrecognised explicit method
  on a point cloud always ends in the sequential encoder. The selection indeed never
  crashes and never fails for such a method, but the heuristic gate stays open: the
  sequential point-cloud encoder is selected unless the speed is below 10, the point
  cloud has exactly one attribute and that attribute passes the k-d-tree checks, in
  which case the k-d-tree encoder is selected.
\<close>

theorem point_cloud_unrecognized_method:
  assumes "global_options opts ''encoding_method'' = Some v"
    and "v \<noteq> POINT_CLOUD_SEQUENTIAL_ENCODING ids" and "v \<noteq> POINT_CLOUD_KD_TREE_ENCODING ids"
  shows "SelectPointCloudEncoder ids pc opts =
           Some (Inr (if GetSpeed opts < 10 \<and> num_attributes pc = 1 \<and>
                         create_kd_tree_encoder opts (attributes pc ! 0)
                      then PointCloudKdTreeEncoder else PointCloudSequentialEncoder))"
proof -
  have not_kd: "GetGlobalInt opts ''encoding_method'' (- 1) \<noteq> POINT_CLOUD_KD_TREE_ENCODING ids"
    using assms by (simp add: GetGlobalInt_def)
  show ?thesis
  proof (cases "GetSpeed opts < 10 \<and> num_attributes pc = 1")
    case True
    then have "attribute pc 0 = Some (attributes pc ! 0)"
      by (simp add: attribute_def)
    with True not_kd show ?thesis
      by (simp add: SelectPointCloudEncoder_def)
  next
    case False
    with not_kd show ?thesis
      by (auto simp: SelectPointCloudEncoder_def)
  qed
qed

text \<open>Method 7 on two attributes at speed 5, and on no attribute at all: sequential.\<close>

theorem point_cloud_unrecognized_method_witness:
  "SelectPointCloudEncoder ids01 \<lparr>attributes = [position_uint32, other_attribute]\<rparr>
     \<lparr>global_options = [''encoding_method'' \<mapsto> 7], attribute_options = \<lambda>_. Map.empty, speed = 5\<rparr>
   = Some (Inr PointCloudSequentialEncoder) \<and>
   SelectPointCloudEncoder ids01 \<lparr>attributes = []\<rparr>
     \<lparr>global_options = [''encoding_method'' \<mapsto> 7], attribute_options = \<lambda>_. Map.empty, speed = 5\<rparr>
   = Some (Inr PointCloudSequentialEncoder)"
  using point_cloud_unrecognized_method
    [where ids = ids01 and v = 7 and pc = "\<lparr>attributes = [position_uint32, other_attribute]\<rparr>"
       and opts = "\<lparr>global_options = [''encoding_method'' \<mapsto> 7], attribute_options = \<lambda>_. Map.empty, speed = 5\<rparr>"]
    point_cloud_unrecognized_method
    [where ids = ids01 and v = 7 and pc = "\<lparr>attributes = []\<rparr>"
       and opts = "\<lparr>global_options = [''encoding_method'' \<mapsto> 7], attribute_options = \<lambda>_. Map.empty, speed = 5\<rparr>"]
  by (simp add: ids01_def num_attributes_def)

text \<open>
  Claim C3 as the specification states it fails: method 7 matches neither identifier
  (0 and 1), yet on a single \<^verbatim>\<open>uint32\<close> position attribute at speed 5 the k-d-tree encoder is
  selected, not the sequential one.
\<close>

theorem point_cloud_unrecognized_method_counterexample:
  "SelectPointCloudEncoder ids01 \<lparr>attributes = [position_uint32]\<rparr>
     \<lparr>global_options = [''encoding_method'' \<mapsto> 7], attribute_options = \<lambda>_. Map.empty, speed = 5\<rparr>
   = Some (Inr PointCloudKdTreeEncoder) \<and>
   SelectPointCloudEncoder ids01 \<lparr>attributes = [position_uint32]\<rparr>
     \<lparr>global_options = [''encoding_method'' \<mapsto> 7], attribute_options = \<lambda>_. Map.empty, speed = 5\<rparr>
   \<noteq> Some (Inr PointCloudSequentialEncoder)"
  by (simp add: SelectPointCloudEncoder_def create_kd_tree_encoder_iff attribute_def
      num_attributes_def reader_defs fixture_defs)

text \<open>
  Claim C4. A point cloud with exactly one attribute that passes the k-d-tree checks
  (a three-component position of type \<^verbatim>\<open>uint32\<close>, or of type \<^verbatim>\<open>float32\<close> with positive
  quantization bits) at a speed below 10 gets the k-d-tree encoder even when the caller
  set \<^verbatim>\<open>"encoding_method"\<close> explicitly to a value other than the k-d-tree identifier,
  the sequential point-cloud identifier included; the call returns what the k-d-tree
  encoder returns.
\<close>

theorem explicit_method_keeps_heuristic_gate:
  assumes "attributes pc = [att]"
    and "attribute_type att = POSITION" and "num_components att = 3"
    and "data_type att = DT_UINT32 \<or>
         data_type att = DT_FLOAT32 \<and> 0 < GetAttributeInt opts 0 ''quantization_bits'' (- 1)"
    and "GetSpeed opts < 10"
    and "global_options opts ''encoding_method'' = Some v"
    and "v \<noteq> POINT_CLOUD_KD_TREE_ENCODING ids"
  shows "SelectPointCloudEncoder ids pc opts = Some (Inr PointCloudKdTreeEncoder) \<and>
         EncodePointCloudToBuffer ids Encode pc opts buf =
           Some (Encode PointCloudKdTreeEncoder pc opts buf)"
proof -
  have "create_kd_tree_encoder opts att"
    using assms(2-4) by (simp add: create_kd_tree_encoder_iff)
  moreover have "attribute pc 0 = Some att" and "num_attributes pc = 1"
    using assms(1) by (simp_all add: attribute_0_single num_attributes_def)
  ultimately have "SelectPointCloudEncoder ids pc opts = Some (Inr PointCloudKdTreeEncoder)"
    using assms(5) by (simp add: SelectPointCloudEncoder_def)
  then show ?thesis
    by (simp add: EncodePointCloudToBuffer_def)
qed

text \<open>The explicit method is the sequential point-cloud identifier 0; the k-d-tree
  encoder's byte 1 is written.\<close>

theorem explicit_method_keeps_heuristic_gate_witness:
  "EncodePointCloudToBuffer ids01 recording_pc_encode \<lparr>attributes = [position_uint32]\<rparr>
     \<lparr>global_options = [''encoding_method'' \<mapsto> POINT_CLOUD_SEQUENTIAL_ENCODING ids01],
      attribute_options = \<lambda>_. Map.empty, speed = 9\<rparr> []
   = Some (Status OK [], [1])"
  using explicit_method_keeps_heuristic_gate
    [where ids = ids01 and v = 0 and att = position_uint32 and Encode = recording_pc_encode
       and buf = "[]" and pc = "\<lparr>attributes = [position_uint32]\<rparr>"
       and opts = "\<lparr>global_options = [''encoding_method'' \<mapsto> POINT_CLOUD_SEQUENTIAL_ENCODING ids01],
                     attribute_options = \<lambda>_. Map.empty, speed = 9\<rparr>"]
  by (simp add: reader_defs fixture_defs)

text \<open>
  Claim C5. With no explicit \<^verbatim>\<open>"encoding_method"\<close> (the read yields the sentinel -1, which
  is not the k-d-tree identifier), a point cloud with more than one attribute, or any
  point cloud at speed 10, gets the sequential point-cloud encoder. And whatever the
  options are, the k-d-tree encoder is selected only inside the gate: the method read
  is the k-d-tree identifier, or the speed is below 10 and there is exactly one
  attribute.
\<close>

theorem kd_tree_only_inside_gate:
  "(GetGlobalInt opts ''encoding_method'' (- 1) = - 1 \<and> POINT_CLOUD_KD_TREE_ENCODING ids \<noteq> - 1 \<and>
    (1 < num_attributes pc \<or> GetSpeed opts = 10) \<longrightarrow>
      SelectPointCloudEncoder ids pc opts = Some (Inr PointCloudSequentialEncoder) \<and>
      EncodePointCloudToBuffer ids Encode pc opts buf =
        Some (Encode PointCloudSequentialEncoder pc opts buf)) \<and>
   (SelectPointCloudEncoder ids pc opts = Some (Inr PointCloudKdTreeEncoder) \<longrightarrow>
      GetGlobalInt opts ''encoding_method'' (- 1) = POINT_CLOUD_KD_TREE_ENCODING ids \<or>
      GetSpeed opts < 10 \<and> num_attributes pc = 1)"
proof (intro conjI impI)
  assume a: "GetGlobalInt opts ''encoding_method'' (- 1) = - 1 \<and>
             POINT_CLOUD_KD_TREE_ENCODING ids \<noteq> - 1 \<and>
             (1 < num_attributes pc \<or> GetSpeed opts = 10)"
  then have closed: "\<not> (GetGlobalInt opts ''encoding_method'' (- 1) = POINT_CLOUD_KD_TREE_ENCODING ids \<or>
                       GetSpeed opts < 10 \<and> num_attributes pc = 1)"
    by auto
  then show sel: "SelectPointCloudEncoder ids pc opts = Some (Inr PointCloudSequentialEncoder)"
    by (auto simp: SelectPointCloudEncoder_def)
  then show "EncodePointCloudToBuffer ids Encode pc opts buf =
               Some (Encode PointCloudSequentialEncoder pc opts buf)"
    by (simp add: EncodePointCloudToBuffer_def)
next
  assume "SelectPointCloudEncoder ids pc opts = Some (Inr PointCloudKdTreeEncoder)"
  then show "GetGlobalInt opts ''encoding_method'' (- 1) = POINT_CLOUD_KD_TREE_ENCODING ids \<or>
             GetSpeed opts < 10 \<and> num_attributes pc = 1"
    by (auto simp: SelectPointCloudEncoder_def Let_def split: if_splits)
qed

text \<open>Two attributes at speed 5, and one eligible attribute at speed 10: the sequential
  encoder's byte 0 is written in both.\<close>

theorem kd_tree_only_inside_gate_witness:
  "EncodePointCloudToBuffer ids01 recording_pc_encode \<lparr>attributes = [position_uint32, other_attribute]\<rparr>
     \<lparr>global_options = Map.empty, attribute_options = \<lambda>_. Map.empty, speed = 5\<rparr> []
   = Some (Status OK [], [0]) \<and>
   EncodePointCloudToBuffer ids01 recording_pc_encode \<lparr>attributes = [position_uint32]\<rparr>
     \<lparr>global_options = Map.empty, attribute_options = \<lambda>_. Map.empty, speed = 10\<rparr> []
   = Some (Status OK [], [0])"
  using kd_tree_only_inside_gate
    [where ids = ids01 and Encode = recording_pc_encode and buf = "[]"
       and pc = "\<lparr>attributes = [position_uint32, other_attribute]\<rparr>"
       and opts = "\<lparr>global_options = Map.empty, attribute_options = \<lambda>_. Map.empty, speed = 5\<rparr>"]
    kd_tree_only_inside_gate
    [where ids = ids01 and Encode = recording_pc_encode and buf = "[]"
       and pc = "\<lparr>attributes = [position_uint32]\<rparr>"
       and opts = "\<lparr>global_options = Map.empty, attribute_options = \<lambda>_. Map.empty, speed = 10\<rparr>"]
  by (simp add: reader_defs fixture_defs num_attributes_def)

text \<open>
  Claim C6. Once the gate is entered (the method read is the k-d-tree identifier, or
  the speed is below 10 with exactly one attribute) and attribute 0 exists, the
  k-d-tree encoder is selected exactly when attribute 0 is a position with three
  components whose data type is \<^verbatim>\<open>uint32\<close>, or \<^verbatim>\<open>float32\<close> with a positive
  \<^verbatim>\<open>"quantization_bits"\<close> read for attribute 0 (with the default -1, so positive only when
  the option is set for that attribute). In particular a single three-component
  \<^verbatim>\<open>uint32\<close> position at a speed below 10 gets the k-d-tree encoder, and a single
  three-component \<^verbatim>\<open>float32\<close> position without positive quantization bits gets the
  sequential encoder when the k-d-tree method was not requested.
\<close>

theorem kd_tree_selected_iff_first_attribute_eligible:
  "((GetGlobalInt opts ''encoding_method'' (- 1) = POINT_CLOUD_KD_TREE_ENCODING ids \<or>
     GetSpeed opts < 10 \<and> num_attributes pc = 1) \<and> attribute pc 0 = Some att \<longrightarrow>
      (SelectPointCloudEncoder ids pc opts = Some (Inr PointCloudKdTreeEncoder) \<longleftrightarrow>
         attribute_type att = POSITION \<and> num_components att = 3 \<and>
         (data_type att = DT_UINT32 \<or>
          data_type att = DT_FLOAT32 \<and> 0 < GetAttributeInt opts 0 ''quantization_bits'' (- 1)))) \<and>
   (attributes pc = [att] \<and> attribute_type att = POSITION \<and> num_components att = 3 \<and>
    data_type att = DT_UINT32 \<and> GetSpeed opts < 10 \<longrightarrow>
      SelectPointCloudEncoder ids pc opts = Some (Inr PointCloudKdTreeEncoder)) \<and>
   (attributes pc = [att] \<and> attribute_type att = POSITION \<and> num_components att = 3 \<and>
    data_type att = DT_FLOAT32 \<and> GetAttributeInt opts 0 ''quantization_bits'' (- 1) \<le> 0 \<and>
    GetSpeed opts < 10 \<and>
    GetGlobalInt opts ''encoding_method'' (- 1) \<noteq> POINT_CLOUD_KD_TREE_ENCODING ids \<longrightarrow>
      SelectPointCloudEncoder ids pc opts = Some (Inr PointCloudSequentialEncoder))"
proof (intro conjI impI)
  assume g: "(GetGlobalInt opts ''encoding_method'' (- 1) = POINT_CLOUD_KD_TREE_ENCODING ids \<or>
              GetSpeed opts < 10 \<and> num_attributes pc = 1) \<and> attribute pc 0 = Some att"
  then have "SelectPointCloudEncoder ids pc opts = Some (Inr PointCloudKdTreeEncoder) \<longleftrightarrow>
             create_kd_tree_encoder opts att"
    by (auto simp: SelectPointCloudEncoder_def)
  then show "SelectPointCloudEncoder ids pc opts = Some (Inr PointCloudKdTreeEncoder) \<longleftrightarrow>
         attribute_type att = POSITION \<and> num_components att = 3 \<and>
         (data_type att = DT_UINT32 \<or>
          data_type att = DT_FLOAT32 \<and> 0 < GetAttributeInt opts 0 ''quantization_bits'' (- 1))"
    by (simp only: create_kd_tree_encoder_iff)
next
  assume a: "attributes pc = [att] \<and> attribute_type att = POSITION \<and> num_components att = 3 \<and>
             data_type att = DT_UINT32 \<and> GetSpeed opts < 10"
  then have "attribute pc 0 = Some att" "num_attributes pc = 1" "create_kd_tree_encoder opts att"
    by (simp_all add: attribute_0_single num_attributes_def create_kd_tree_encoder_iff)
  with a show "SelectPointCloudEncoder ids pc opts = Some (Inr PointCloudKdTreeEncoder)"
    by (simp add: SelectPointCloudEncoder_def)
next
  assume a: "attributes pc = [att] \<and> attribute_type att = POSITION \<and> num_components att = 3 \<and>
    data_type att = DT_FLOAT32 \<and> GetAttributeInt opts 0 ''quantization_bits'' (- 1) \<le> 0 \<and>
    GetSpeed opts < 10 \<and>
    GetGlobalInt opts ''encoding_method'' (- 1) \<noteq> POINT_CLOUD_KD_TREE_ENCODING ids"
  then have "attribute pc 0 = Some att" "num_attributes pc = 1" "\<not> create_kd_tree_encoder opts att"
    by (simp_all add: attribute_0_single num_attributes_def create_kd_tree_encoder_iff)
  with a show "SelectPointCloudEncoder ids pc opts = Some (Inr PointCloudSequentialEncoder)"
    by (simp add: SelectPointCloudEncoder_def)
qed

text \<open>
  A single \<^verbatim>\<open>float32\<close> position at speed 5 with 11 quantization bits on attribute 0 is
  given the k-d-tree encoder; a single \<^verbatim>\<open>uint32\<close> position is; a single \<^verbatim>\<open>float32\<close> position
  without quantization bits is given the sequential encoder.
\<close>

theorem kd_tree_selected_iff_first_attribute_eligible_witness:
  "SelectPointCloudEncoder ids01 \<lparr>attributes = [position_float32]\<rparr>
     \<lparr>global_options = Map.empty,
      attribute_options = (\<lambda>_. Map.empty)(0 := [''quantization_bits'' \<mapsto> 11]), speed = 5\<rparr>
   = Some (Inr PointCloudKdTreeEncoder) \<and>
   SelectPointCloudEncoder ids01 \<lparr>attributes = [position_uint32]\<rparr>
     \<lparr>global_options = Map.empty, attribute_options = \<lambda>_. Map.empty, speed = 5\<rparr>
   = Some (Inr PointCloudKdTreeEncoder) \<and>
   SelectPointCloudEncoder ids01 \<lparr>attributes = [position_float32]\<rparr>
     \<lparr>global_options = Map.empty, attribute_options = \<lambda>_. Map.empty, speed = 5\<rparr>
   = Some (Inr PointCloudSequentialEncoder)"
  using kd_tree_selected_iff_first_attribute_eligible
    [where ids = ids01 and att = position_float32 and pc = "\<lparr>attributes = [position_float32]\<rparr>"
       and opts = "\<lparr>global_options = Map.empty,
                     attribute_options = (\<lambda>_. Map.empty)(0 := [''quantization_bits'' \<mapsto> 11]), speed = 5\<rparr>"]
    kd_tree_selected_iff_first_attribute_eligible
    [where ids = ids01 and att = position_uint32 and pc = "\<lparr>attributes = [position_uint32]\<rparr>"
       and opts = "\<lparr>global_options = Map.empty, attribute_options = \<lambda>_. Map.empty, speed = 5\<rparr>"]
    kd_tree_selected_iff_first_attribute_eligible
    [where ids = ids01 and att = position_float32 and pc = "\<lparr>attributes = [position_float32]\<rparr>"
       and opts = "\<lparr>global_options = Map.empty, attribute_options = \<lambda>_. Map.empty, speed = 5\<rparr>"]
  by (simp add: reader_defs fixture_defs num_attributes_def attribute_def)

subsection \<open>The entry point\<close>

text \<open>
  Claim C8. \<open>EncodeToBuffer\<close> returns \<open>InvalidInput\<close>, with the buffer as it was, when no
  point cloud is bound. When one is bound, the call is the point-cloud procedure if the
  mesh pointer is null and the mesh procedure otherwise, and its result is the result
  of that procedure, unchanged. The selector raises \<open>InvalidInput\<close> in no other place:
  if the collaborators never return that status, the call returns it exactly when no
  point cloud is bound. Both constructors bind a point cloud, so a constructed selector
  always reaches one of the two procedures.
\<close>

theorem EncodeToBuffer_dispatch:
  "(point_cloud_ptr this = None \<longrightarrow>
      EncodeToBuffer ids EncodePC EncodeM this buf = Some (InvalidInput, buf)) \<and>
   (point_cloud_ptr this = Some pc \<and> mesh_ptr this = None \<longrightarrow>
      EncodeToBuffer ids EncodePC EncodeM this buf =
        EncodePointCloudToBuffer ids EncodePC pc (options this) buf) \<and>
   (point_cloud_ptr this = Some pc \<and> mesh_ptr this = Some m \<longrightarrow>
      EncodeToBuffer ids EncodePC EncodeM this buf =
        EncodeMeshToBuffer ids EncodeM m (options this) buf) \<and>
   ((\<forall>e g opts b. fst (EncodePC e g opts b) \<noteq> InvalidInput) \<and>
    (\<forall>e g opts b. fst (EncodeM e g opts b) \<noteq> InvalidInput) \<longrightarrow>
      ((\<exists>b. EncodeToBuffer ids EncodePC EncodeM this buf = Some (InvalidInput, b)) \<longleftrightarrow>
       point_cloud_ptr this = None)) \<and>
   EncodeToBuffer ids EncodePC EncodeM (ExpertEncoder_of_PointCloud base pc') buf =
     EncodePointCloudToBuffer ids EncodePC pc' base buf \<and>
   EncodeToBuffer ids EncodePC EncodeM (ExpertEncoder_of_Mesh base m') buf =
     EncodeMeshToBuffer ids EncodeM m' base buf"
proof (intro conjI impI)
  show "EncodeToBuffer ids EncodePC EncodeM this buf = Some (InvalidInput, buf)"
    if "point_cloud_ptr this = None"
    using that by (simp add: EncodeToBuffer_def)
  show "EncodeToBuffer ids EncodePC EncodeM this buf =
          EncodePointCloudToBuffer ids EncodePC pc (options this) buf"
    if "point_cloud_ptr this = Some pc \<and> mesh_ptr this = None"
    using that by (simp add: EncodeToBuffer_def)
  show "EncodeToBuffer ids EncodePC EncodeM this buf =
          EncodeMeshToBuffer ids EncodeM m (options this) buf"
    if "point_cloud_ptr this = Some pc \<and> mesh_ptr this = Some m"
    using that by (simp add: EncodeToBuffer_def)
  show "(\<exists>b. EncodeToBuffer ids EncodePC EncodeM this buf = Some (InvalidInput, b)) \<longleftrightarrow>
        point_cloud_ptr this = None"
    if quiet: "(\<forall>e g opts b. fst (EncodePC e g opts b) \<noteq> InvalidInput) \<and>
               (\<forall>e g opts b. fst (EncodeM e g opts b) \<noteq> InvalidInput)"
  proof (cases "point_cloud_ptr this")
    case None
    then show ?thesis by (simp add: EncodeToBuffer_def)
  next
    case (Some g)
    have pc: "EncodePointCloudToBuffer ids EncodePC g (options this) buf \<noteq> Some (InvalidInput, b)" for b
    proof (cases "SelectPointCloudEncoder ids g (options this)")
      case None
      then show ?thesis by (simp add: EncodePointCloudToBuffer_def)
    next
      case sel: (Some r)
      show ?thesis
      proof (cases r)
        case (Inl st)
        with sel have "st = InvalidEncodingMethod"
          by (auto simp: SelectPointCloudEncoder_def Let_def split: if_splits option.splits)
        with sel Inl show ?thesis
          by (simp add: EncodePointCloudToBuffer_def statuses_differ)
      next
        case (Inr e)
        from quiet have "fst (EncodePC e g (options this) buf) \<noteq> InvalidInput" by blast
        with sel Inr show ?thesis
          by (auto simp: EncodePointCloudToBuffer_def)
      qed
    qed
    have me: "EncodeMeshToBuffer ids EncodeM k (options this) buf \<noteq> Some (InvalidInput, b)" for k b
    proof -
      from quiet have "fst (EncodeM (SelectMeshEncoder ids (options this)) k (options this) buf)
                         \<noteq> InvalidInput" by blast
      then show ?thesis by (auto simp: EncodeMeshToBuffer_def)
    qed
    from Some pc me show ?thesis
      by (simp add: EncodeToBuffer_def split: option.splits)
  qed
  show "EncodeToBuffer ids EncodePC EncodeM (ExpertEncoder_of_PointCloud base pc') buf =
          EncodePointCloudToBuffer ids EncodePC pc' base buf"
    by (simp add: EncodeToBuffer_def ExpertEncoder_of_PointCloud_def)
  show "EncodeToBuffer ids EncodePC EncodeM (ExpertEncoder_of_Mesh base m') buf =
          EncodeMeshToBuffer ids EncodeM m' base buf"
    by (simp add: EncodeToBuffer_def ExpertEncoder_of_Mesh_def)
qed

text \<open>
  A selector with both pointers null returns \<open>InvalidInput\<close> and leaves the byte 9 in the
  buffer alone; a selector constructed over a point cloud, and one constructed over a
  mesh, return the status and the buffer of the encoder that ran.
\<close>

theorem EncodeToBuffer_dispatch_witness:
  "EncodeToBuffer ids01 recording_pc_encode recording_mesh_encode
     \<lparr>point_cloud_ptr = None, mesh_ptr = None,
      options = \<lparr>global_options = Map.empty, attribute_options = \<lambda>_. Map.empty, speed = 5\<rparr>\<rparr> [9]
   = Some (InvalidInput, [9]) \<and>
   EncodeToBuffer ids01 recording_pc_encode recording_mesh_encode
     (ExpertEncoder_of_PointCloud
        \<lparr>global_options = Map.empty, attribute_options = \<lambda>_. Map.empty, speed = 5\<rparr>
        \<lparr>attributes = [position_uint32]\<rparr>) [9]
   = Some (Status OK [], [9, 1]) \<and>
   EncodeToBuffer ids01 recording_pc_encode recording_mesh_encode
     (ExpertEncoder_of_Mesh
        \<lparr>global_options = Map.empty, attribute_options = \<lambda>_. Map.empty, speed = 5\<rparr>
        \<lparr>attributes = [position_uint32], faces = [(0, 0, 0)]\<rparr>) [9]
   = Some (Status OK [], [9, 3])"
  using EncodeToBuffer_dispatch
    [where ids = ids01 and EncodePC = recording_pc_encode and EncodeM = recording_mesh_encode
       and buf = "[9]"
       and this = "\<lparr>point_cloud_ptr = None, mesh_ptr = None,
          options = \<lparr>global_options = Map.empty, attribute_options = \<lambda>_. Map.empty, speed = 5\<rparr>\<rparr>"
       and base = "\<lparr>global_options = Map.empty, attribute_options = \<lambda>_. Map.empty, speed = 5\<rparr>"
       and pc' = "\<lparr>attributes = [position_uint32]\<rparr>"
       and m' = "\<lparr>attributes = [position_uint32], faces = [(0, 0, 0)]\<rparr>"]
  by (simp add: EncodePointCloudToBuffer_def SelectPointCloudEncoder_def create_kd_tree_encoder_iff
      EncodeMeshToBuffer_def SelectMeshEncoder_def attribute_def num_attributes_def
      reader_defs fixture_defs)

subsection \<open>Setting the quantization of one attribute\<close>

text \<open>
  Claim C9. \<open>SetAttributeQuantization this a q\<close> stores \<open>q\<close> under \<^verbatim>\<open>"quantization_bits"\<close>
  of attribute \<open>a\<close> and changes nothing else: the bound geometry, the global options,
  the speed, every option of every other attribute and every other option of \<open>a\<close> are
  as before. Hence every read for another attribute is unchanged, and when \<open>a\<close> is not
  attribute 0, the one attribute the selector reads, the k-d-tree checks and the
  point-cloud selection are unchanged; the mesh selection is unchanged for every \<open>a\<close>.
\<close>

theorem SetAttributeQuantization_frame:
  "point_cloud_ptr (SetAttributeQuantization this a q) = point_cloud_ptr this \<and>
   mesh_ptr (SetAttributeQuantization this a q) = mesh_ptr this \<and>
   global_options (options (SetAttributeQuantization this a q)) = global_options (options this) \<and>
   speed (options (SetAttributeQuantization this a q)) = speed (options this) \<and>
   attribute_options (options (SetAttributeQuantization this a q)) a ''quantization_bits'' = Some q \<and>
   (name \<noteq> ''quantization_bits'' \<longrightarrow>
      attribute_options (options (SetAttributeQuantization this a q)) a name =
        attribute_options (options this) a name) \<and>
   (b \<noteq> a \<longrightarrow>
      attribute_options (options (SetAttributeQuantization this a q)) b =
        attribute_options (options this) b \<and>
      GetAttributeInt (options (SetAttributeQuantization this a q)) b name d =
        GetAttributeInt (options this) b name d) \<and>
   (a \<noteq> 0 \<longrightarrow>
      create_kd_tree_encoder (options (SetAttributeQuantization this a q)) att =
        create_kd_tree_encoder (options this) att \<and>
      SelectPointCloudEncoder ids pc (options (SetAttributeQuantization this a q)) =
        SelectPointCloudEncoder ids pc (options this)) \<and>
   SelectMeshEncoder ids (options (SetAttributeQuantization this a q)) =
     SelectMeshEncoder ids (options this)"
proof -
  let ?o = "options (SetAttributeQuantization this a q)"
  have glob: "GetGlobalInt ?o k d' = GetGlobalInt (options this) k d'" for k d'
    by (simp add: SetAttributeQuantization_def SetAttributeInt_def GetGlobalInt_def)
  have spd: "GetSpeed ?o = GetSpeed (options this)"
    by (simp add: SetAttributeQuantization_def SetAttributeInt_def GetSpeed_def)
  have other: "GetAttributeInt ?o c k d' = GetAttributeInt (options this) c k d'" if "c \<noteq> a" for c k d'
    using that by (simp add: SetAttributeQuantization_def SetAttributeInt_def GetAttributeInt_def)
  have checks: "create_kd_tree_encoder ?o t = create_kd_tree_encoder (options this) t" if "a \<noteq> 0" for t
    using that other [of 0] by (simp add: create_kd_tree_encoder_iff)
  have sel: "SelectPointCloudEncoder ids pc ?o = SelectPointCloudEncoder ids pc (options this)" if "a \<noteq> 0"
    using that
    by (simp add: SelectPointCloudEncoder_def Let_def glob spd checks cong: option.case_cong)
  have mesh: "SelectMeshEncoder ids ?o = SelectMeshEncoder ids (options this)"
    by (simp add: SelectMeshEncoder_def glob spd)
  have fields:
    "point_cloud_ptr (SetAttributeQuantization this a q) = point_cloud_ptr this"
    "mesh_ptr (SetAttributeQuantization this a q) = mesh_ptr this"
    "global_options ?o = global_options (options this)"
    "speed ?o = speed (options this)"
    "attribute_options ?o a ''quantization_bits'' = Some q"
    by (simp_all add: SetAttributeQuantization_def SetAttributeInt_def)
  have same_att: "attribute_options ?o a name = attribute_options (options this) a name"
    if "name \<noteq> ''quantization_bits''"
    using that by (simp add: SetAttributeQuantization_def SetAttributeInt_def)
  have other_att: "attribute_options ?o b = attribute_options (options this) b" if "b \<noteq> a"
    using that by (simp add: SetAttributeQuantization_def SetAttributeInt_def)
  show ?thesis
    using fields same_att other_att other checks sel mesh by simp
qed

text \<open>
  Eleven bits set on attribute 1 of a selector over a single \<^verbatim>\<open>float32\<close> position: the read
  for attribute 0 still yields the default, and the sequential encoder is still
  selected, where eleven bits on attribute 0 would have opened the k-d-tree encoder.
\<close>

theorem SetAttributeQuantization_frame_witness:
  "GetAttributeInt
     (options (SetAttributeQuantization
        (ExpertEncoder_of_PointCloud
           \<lparr>global_options = Map.empty, attribute_options = \<lambda>_. Map.empty, speed = 5\<rparr>
           \<lparr>attributes = [position_float32]\<rparr>) 1 11)) 0 ''quantization_bits'' (- 1) = - 1 \<and>
   SelectPointCloudEncoder ids01 \<lparr>attributes = [position_float32]\<rparr>
     (options (SetAttributeQuantization
        (ExpertEncoder_of_PointCloud
           \<lparr>global_options = Map.empty, attribute_options = \<lambda>_. Map.empty, speed = 5\<rparr>
           \<lparr>attributes = [position_float32]\<rparr>) 1 11))
   = Some (Inr PointCloudSequentialEncoder)"
  using SetAttributeQuantization_frame
    [where ids = ids01 and a = 1 and q = 11 and b = 0 and name = "''quantization_bits''"
       and d = "- 1" and pc = "\<lparr>attributes = [position_float32]\<rparr>"
       and this = "ExpertEncoder_of_PointCloud
           \<lparr>global_options = Map.empty, attribute_options = \<lambda>_. Map.empty, speed = 5\<rparr>
           \<lparr>attributes = [position_float32]\<rparr>"]
  by (simp add: ExpertEncoder_of_PointCloud_def SelectPointCloudEncoder_def
      create_kd_tree_encoder_iff attribute_def num_attributes_def reader_defs fixture_defs)

end
